theory Spec2Isabelle
  imports Complex_Main
begin

section \<open>Data model\<close>

text \<open>
  The notebooks map the two signature classes to integers with
  \<^verbatim>\<open>label_map = {'Genuine': 1, 'Forged': 0}\<close>; \<open>Genuine\<close> is the positive class.
  Scores are Python floats; they are modelled as mathematical reals, so rounding,
  infinities and NaN are outside the model.
\<close>

datatype label = Forged | Genuine

text \<open>
  The failures of the evaluation code. The first four are the conditions the
  specification names; in the notebooks they surface as Python exceptions of the
  libraries (a missing \<^verbatim>\<open>predict_proba\<close> attribute is the condition called
  \<open>UnsupportedClassifier\<close>). \<open>IndexError\<close> is the column selection \<^verbatim>\<open>[:, 1]\<close> on a
  probability matrix with fewer than two columns, \<open>ValueError\<close> is
  \<^verbatim>\<open>np.nanargmin\<close> on an empty array.
\<close>

datatype error =
    DimensionMismatch
  | EmptyInput
  | DegenerateLabelSet
  | UnsupportedClassifier
  | IndexError
  | ValueError

text \<open>
  A decision threshold of the ROC sweep: a score value, or one of the two boundary
  thresholds above every score and below every score.
\<close>

datatype threshold = PosInf | Thr real | NegInf

fun thr_less :: "threshold \<Rightarrow> threshold \<Rightarrow> bool" where
  "thr_less NegInf NegInf = False"
| "thr_less NegInf _ = True"
| "thr_less (Thr a) (Thr b) = (a < b)"
| "thr_less (Thr a) PosInf = True"
| "thr_less (Thr a) NegInf = False"
| "thr_less PosInf _ = False"

fun map_threshold :: "(real \<Rightarrow> real) \<Rightarrow> threshold \<Rightarrow> threshold" where
  "map_threshold f PosInf = PosInf"
| "map_threshold f (Thr t) = Thr (f t)"
| "map_threshold f NegInf = NegInf"

section \<open>The ROC curve\<close>

text \<open>
  Modelled from the spec: \<^verbatim>\<open>roc_curve\<close> is scikit-learn's function, imported by the
  notebooks and not part of the repository's sources. The definitions of this section
  follow the specification, section 4.1, steps 1 and 2: every distinct score is a
  candidate threshold, with a boundary threshold above the maximum and one below the
  minimum, sorted descending; a prediction is positive iff its score is at least the
  threshold; the rates are FP/(FP+TN) and TP/(TP+FN). The curve is undefined when a
  class is absent: the call fails with \<open>DegenerateLabelSet\<close>.
\<close>

fun flagged :: "threshold \<Rightarrow> real \<Rightarrow> bool" where
  "flagged PosInf x = False"
| "flagged (Thr t) x = (t \<le> x)"
| "flagged NegInf x = True"

definition count_where :: "(label \<Rightarrow> real \<Rightarrow> bool) \<Rightarrow> label list \<Rightarrow> real list \<Rightarrow> nat" where
  "count_where P y_true y_score = length (filter (\<lambda>(l, x). P l x) (zip y_true y_score))"

definition FP :: "label list \<Rightarrow> real list \<Rightarrow> threshold \<Rightarrow> nat" where
  "FP y_true y_score t = count_where (\<lambda>l x. l = Forged \<and> flagged t x) y_true y_score"

definition TN :: "label list \<Rightarrow> real list \<Rightarrow> threshold \<Rightarrow> nat" where
  "TN y_true y_score t = count_where (\<lambda>l x. l = Forged \<and> \<not> flagged t x) y_true y_score"

definition TP :: "label list \<Rightarrow> real list \<Rightarrow> threshold \<Rightarrow> nat" where
  "TP y_true y_score t = count_where (\<lambda>l x. l = Genuine \<and> flagged t x) y_true y_score"

definition FN :: "label list \<Rightarrow> real list \<Rightarrow> threshold \<Rightarrow> nat" where
  "FN y_true y_score t = count_where (\<lambda>l x. l = Genuine \<and> \<not> flagged t x) y_true y_score"

definition false_positive_rate :: "label list \<Rightarrow> real list \<Rightarrow> threshold \<Rightarrow> real" where
  "false_positive_rate y_true y_score t =
     real (FP y_true y_score t) / real (FP y_true y_score t + TN y_true y_score t)"

definition true_positive_rate :: "label list \<Rightarrow> real list \<Rightarrow> threshold \<Rightarrow> real" where
  "true_positive_rate y_true y_score t =
     real (TP y_true y_score t) / real (TP y_true y_score t + FN y_true y_score t)"

definition candidate_thresholds :: "real list \<Rightarrow> threshold list" where
  "candidate_thresholds y_score =
     PosInf # map Thr (rev (sort (remdups y_score))) @ [NegInf]"

definition roc_curve ::
  "label list \<Rightarrow> real list \<Rightarrow> error + (real list \<times> real list \<times> threshold list)" where
  "roc_curve y_true y_score =
     (if length y_true \<noteq> length y_score then Inl DimensionMismatch
      else if y_true = [] then Inl EmptyInput
      else if Genuine \<in> set y_true \<and> Forged \<in> set y_true then
        let thresholds = candidate_thresholds y_score
        in Inr (map (false_positive_rate y_true y_score) thresholds,
                map (true_positive_rate y_true y_score) thresholds,
                thresholds)
      else Inl DegenerateLabelSet)"

section \<open>The equal error rate\<close>

text \<open>
  \<^verbatim>\<open>np.nanargmin\<close>: the index of the first smallest entry of an array; it raises
  \<^verbatim>\<open>ValueError\<close> on an empty array (\<open>None\<close> here). The entries are compared by a
  linear order: the order of the reals, or of the float64 values other than NaN. With
  both classes present the rates are finite, so there is no NaN to skip.
\<close>

fun nanargmin :: "'a::linorder list \<Rightarrow> nat option" where
  "nanargmin [] = None"
| "nanargmin (x # xs) =
     (case nanargmin xs of
        None \<Rightarrow> Some 0
      | Some i \<Rightarrow> if x \<le> xs ! i then Some 0 else Some (Suc i))"

text \<open>
  The notebooks' function, the same in all three:
  \<^verbatim>\<open>
  def compute_eer(y_true, y_score):
      fpr, tpr, thresholds = roc_curve(y_true, y_score)
      fnr = 1 - tpr
      idx = np.nanargmin(np.abs(fpr - fnr))
      eer = (fpr[idx] + fnr[idx]) / 2
      return eer, thresholds[idx]
  \<close>
  \<open>eer_index\<close> is the value of \<^verbatim>\<open>idx\<close>.
\<close>

definition eer_index :: "real list \<Rightarrow> real list \<Rightarrow> nat option" where
  "eer_index fpr tpr =
     (let fnr = map (\<lambda>v. 1 - v) tpr
      in nanargmin (map2 (\<lambda>a b. \<bar>a - b\<bar>) fpr fnr))"

definition compute_eer :: "label list \<Rightarrow> real list \<Rightarrow> error + (real \<times> threshold)" where
  "compute_eer y_true y_score =
     (case roc_curve y_true y_score of
        Inl e \<Rightarrow> Inl e
      | Inr (fpr, tpr, thresholds) \<Rightarrow>
          let fnr = map (\<lambda>v. 1 - v) tpr
          in (case nanargmin (map2 (\<lambda>a b. \<bar>a - b\<bar>) fpr fnr) of
                None \<Rightarrow> Inl ValueError
              | Some idx \<Rightarrow> Inr ((fpr ! idx + fnr ! idx) / 2, thresholds ! idx)))"

text \<open>
  \<open>compute_eer\<close> above computes with exact real numbers, and takes the ROC curve of the
  specification. The notebooks compute in float64, where every operation rounds, and
  call the library. \<open>compute_eer_with\<close> is the same function body with both left open:
  the arithmetic it uses (the constants 1 and 2, subtraction, addition, division and
  absolute value, over any linearly ordered type of numbers) and the library function
  \<^verbatim>\<open>roc_curve\<close> are parameters. \<open>exact_arithmetic\<close> is the arithmetic of the reals.
\<close>

record 'a arithmetic =
  f_one :: 'a
  f_two :: 'a
  f_sub :: "'a \<Rightarrow> 'a \<Rightarrow> 'a"
  f_add :: "'a \<Rightarrow> 'a \<Rightarrow> 'a"
  f_div :: "'a \<Rightarrow> 'a \<Rightarrow> 'a"
  f_abs :: "'a \<Rightarrow> 'a"

definition compute_eer_with ::
  "('a::linorder) arithmetic \<Rightarrow> ('l \<Rightarrow> 's \<Rightarrow> error + ('a list \<times> 'a list \<times> 't list))
     \<Rightarrow> 'l \<Rightarrow> 's \<Rightarrow> error + ('a \<times> 't)" where
  "compute_eer_with F roc_curve_lib y_true y_score =
     (case roc_curve_lib y_true y_score of
        Inl e \<Rightarrow> Inl e
      | Inr (fpr, tpr, thresholds) \<Rightarrow>
          let fnr = map (\<lambda>v. f_sub F (f_one F) v) tpr
          in (case nanargmin (map2 (\<lambda>a b. f_abs F (f_sub F a b)) fpr fnr) of
                None \<Rightarrow> Inl ValueError
              | Some idx \<Rightarrow>
                  Inr (f_div F (f_add F (fpr ! idx) (fnr ! idx)) (f_two F), thresholds ! idx)))"

definition exact_arithmetic :: "real arithmetic" where
  "exact_arithmetic =
     \<lparr>f_one = 1, f_two = 2, f_sub = (\<lambda>a b. a - b), f_add = (\<lambda>a b. a + b),
      f_div = (\<lambda>a b. a / b), f_abs = (\<lambda>a. \<bar>a\<bar>)\<rparr>"

text \<open>
  An arithmetic that rounds: subtraction on the multiples of 1/8, rounding its result to
  the nearest multiple of 1/4 (the lower one at a tie). It stands in for float64 in
  examples, where a rounded subtraction can separate two gaps that are equal exactly.
\<close>

definition coarse_arithmetic :: "real arithmetic" where
  "coarse_arithmetic =
     \<lparr>f_one = 1, f_two = 2,
      f_sub = (\<lambda>a b. of_int (\<lceil>(a - b) * 4 - 1/2\<rceil>) / 4),
      f_add = (\<lambda>a b. a + b),
      f_div = (\<lambda>a b. a / b), f_abs = (\<lambda>a. \<bar>a\<bar>)\<rparr>"

text \<open>
  The distance \<^verbatim>\<open>np.abs(fpr - fnr)\<close> of one ROC point, as a function of its threshold,
  and the scores of the examples of one class; both are used to state properties only.
\<close>

definition gap :: "label list \<Rightarrow> real list \<Rightarrow> threshold \<Rightarrow> real" where
  "gap y_true y_score t =
     \<bar>false_positive_rate y_true y_score t - (1 - true_positive_rate y_true y_score t)\<bar>"

definition scores_of :: "label \<Rightarrow> label list \<Rightarrow> real list \<Rightarrow> real list" where
  "scores_of c y_true y_score = map snd (filter (\<lambda>(l, x). l = c) (zip y_true y_score))"

section \<open>Classification metrics\<close>

text \<open>
  Modelled from the spec: \<^verbatim>\<open>accuracy_score\<close>, \<^verbatim>\<open>precision_score\<close>,
  \<^verbatim>\<open>recall_score\<close> and \<^verbatim>\<open>f1_score\<close> are scikit-learn's functions, not part of the
  repository's sources. They follow the specification, section 4.1: both sequences
  have the same length (\<open>DimensionMismatch\<close>) and are not empty (\<open>EmptyInput\<close>);
  accuracy is matches / n; precision is TP / (TP + FP) and recall TP / (TP + FN), each 0
  when its denominator is 0; f1 is the harmonic mean of the two, 0 when both are 0.
\<close>

definition check_lengths :: "label list \<Rightarrow> label list \<Rightarrow> error option" where
  "check_lengths y_true y_pred =
     (if length y_true \<noteq> length y_pred then Some DimensionMismatch
      else if y_true = [] then Some EmptyInput
      else None)"

definition count_pairs :: "label \<Rightarrow> label \<Rightarrow> label list \<Rightarrow> label list \<Rightarrow> nat" where
  "count_pairs a b y_true y_pred =
     length (filter (\<lambda>(t, p). t = a \<and> p = b) (zip y_true y_pred))"

definition accuracy_score :: "label list \<Rightarrow> label list \<Rightarrow> error + real" where
  "accuracy_score y_true y_pred =
     (case check_lengths y_true y_pred of
        Some e \<Rightarrow> Inl e
      | None \<Rightarrow>
          Inr (real (length (filter (\<lambda>(t, p). t = p) (zip y_true y_pred)))
               / real (length y_true)))"

definition precision_score :: "label list \<Rightarrow> label list \<Rightarrow> error + real" where
  "precision_score y_true y_pred =
     (case check_lengths y_true y_pred of
        Some e \<Rightarrow> Inl e
      | None \<Rightarrow>
          let tp = count_pairs Genuine Genuine y_true y_pred;
              fp = count_pairs Forged Genuine y_true y_pred
          in if tp + fp = 0 then Inr 0 else Inr (real tp / real (tp + fp)))"

definition recall_score :: "label list \<Rightarrow> label list \<Rightarrow> error + real" where
  "recall_score y_true y_pred =
     (case check_lengths y_true y_pred of
        Some e \<Rightarrow> Inl e
      | None \<Rightarrow>
          let tp = count_pairs Genuine Genuine y_true y_pred;
              fn = count_pairs Genuine Forged y_true y_pred
          in if tp + fn = 0 then Inr 0 else Inr (real tp / real (tp + fn)))"

definition f1_score :: "label list \<Rightarrow> label list \<Rightarrow> error + real" where
  "f1_score y_true y_pred =
     (case precision_score y_true y_pred of
        Inl e \<Rightarrow> Inl e
      | Inr p \<Rightarrow>
          (case recall_score y_true y_pred of
             Inl e \<Rightarrow> Inl e
           | Inr r \<Rightarrow> if p + r = 0 then Inr 0 else Inr (2 * p * r / (p + r))))"

section \<open>The evaluation loop\<close>

text \<open>
  A classifier of the model library, as the loop uses it: \<^verbatim>\<open>fit\<close> trains it (the
  Python object is mutated in place; here the fitted state is returned), \<^verbatim>\<open>predict\<close>
  gives hard labels and \<^verbatim>\<open>predict_proba\<close> one row of class probabilities per example.
  A classifier without the attribute \<^verbatim>\<open>predict_proba\<close> has \<open>None\<close> there.
\<close>

record ('x, 'm) classifier =
  fit :: "'x \<Rightarrow> label list \<Rightarrow> 'm"
  predict :: "'m \<Rightarrow> 'x \<Rightarrow> label list"
  predict_proba :: "('m \<Rightarrow> 'x \<Rightarrow> real list list) option"

text \<open>
  One entry of \<^verbatim>\<open>results\<close> is the dict
  \<^verbatim>\<open>{'Model': name, 'Accuracy': acc, 'Precision': pre, 'Recall': rec, 'F1': f1}\<close>,
  kept as the list of its items in insertion order.
\<close>

datatype cell = Str string | Num real

type_synonym report = "(string \<times> cell) list"

text \<open>The column selection \<^verbatim>\<open>[:, 1]\<close> on the matrix of class probabilities.\<close>

definition positive_class_column :: "real list list \<Rightarrow> error + real list" where
  "positive_class_column rows =
     (if list_all (\<lambda>r. 1 < length r) rows then Inr (map (\<lambda>r. r ! 1) rows)
      else Inl IndexError)"

text \<open>
  The body of the loop of notebook 3:
  \<^verbatim>\<open>
  for name, model in models.items():
      model.fit(X_train_scaled, y_train)
      y_pred = model.predict(X_test_scaled)
      y_prob = model.predict_proba(X_test_scaled)[:, 1]

      acc = accuracy_score(y_test, y_pred)
      pre = precision_score(y_test, y_pred)
      rec = recall_score(y_test, y_pred)
      f1 = f1_score(y_test, y_pred)

      results.append({'Model': name, 'Accuracy': acc, 'Precision': pre, 'Recall': rec, 'F1': f1})
  \<close>
  There is no \<^verbatim>\<open>try\<close> around any of its statements: an exception leaves the loop.
\<close>

definition evaluate_model ::
  "string \<Rightarrow> ('x, 'm) classifier \<Rightarrow> 'x \<Rightarrow> label list \<Rightarrow> 'x \<Rightarrow> label list \<Rightarrow> error + report" where
  "evaluate_model name model X_train y_train X_test y_test =
     (let fitted = fit model X_train y_train;
          y_pred = predict model fitted X_test
      in case predict_proba model of
           None \<Rightarrow> Inl UnsupportedClassifier
         | Some proba \<Rightarrow>
     (case positive_class_column (proba fitted X_test) of
           Inl e \<Rightarrow> Inl e
         | Inr y_prob \<Rightarrow>
     (case accuracy_score y_test y_pred of
           Inl e \<Rightarrow> Inl e
         | Inr acc \<Rightarrow>
     (case precision_score y_test y_pred of
           Inl e \<Rightarrow> Inl e
         | Inr pre \<Rightarrow>
     (case recall_score y_test y_pred of
           Inl e \<Rightarrow> Inl e
         | Inr rec \<Rightarrow>
     (case f1_score y_test y_pred of
           Inl e \<Rightarrow> Inl e
         | Inr f1 \<Rightarrow>
             Inr [(''Model'', Str name), (''Accuracy'', Num acc), (''Precision'', Num pre),
                  (''Recall'', Num rec), (''F1'', Num f1)]))))))"

text \<open>
  The loop over \<^verbatim>\<open>models.items()\<close>, with the list \<^verbatim>\<open>results\<close> as its state. The run
  returns the list as it stands when the loop ends, and the exception that ended it,
  if one did.
\<close>

fun evaluate_loop ::
  "(string \<times> ('x, 'm) classifier) list \<Rightarrow> 'x \<Rightarrow> label list \<Rightarrow> 'x \<Rightarrow> label list
     \<Rightarrow> report list \<Rightarrow> report list \<times> error option" where
  "evaluate_loop [] X_train y_train X_test y_test results = (results, None)"
| "evaluate_loop ((name, model) # rest) X_train y_train X_test y_test results =
     (case evaluate_model name model X_train y_train X_test y_test of
        Inl e \<Rightarrow> (results, Some e)
      | Inr r \<Rightarrow> evaluate_loop rest X_train y_train X_test y_test (results @ [r]))"

definition evaluate_all ::
  "(string \<times> ('x, 'm) classifier) list \<Rightarrow> 'x \<Rightarrow> label list \<Rightarrow> 'x \<Rightarrow> label list
     \<Rightarrow> report list \<times> error option" where
  "evaluate_all models X_train y_train X_test y_test =
     evaluate_loop models X_train y_train X_test y_test []"

text \<open>
  Stand-ins for library classifiers, used in examples: \<open>fixed_classifier\<close> answers with
  the given labels and probability rows whatever it is trained on, and
  \<open>hard_only_classifier\<close> has no \<^verbatim>\<open>predict_proba\<close>.
\<close>

definition fixed_classifier :: "label list \<Rightarrow> real list list \<Rightarrow> (unit, unit) classifier" where
  "fixed_classifier labels rows =
     \<lparr>fit = (\<lambda>_ _. ()), predict = (\<lambda>_ _. labels), predict_proba = Some (\<lambda>_ _. rows)\<rparr>"

definition hard_only_classifier :: "label list \<Rightarrow> (unit, unit) classifier" where
  "hard_only_classifier labels =
     \<lparr>fit = (\<lambda>_ _. ()), predict = (\<lambda>_ _. labels), predict_proba = None\<rparr>"


section \<open>Properties of the first minimum\<close>

lemma nanargmin_None_iff: "nanargmin xs = None \<longleftrightarrow> xs = []"
  by (cases xs) (auto split: option.splits)

lemma nanargmin_bound: "nanargmin xs = Some i \<Longrightarrow> i < length xs"
  by (induction xs arbitrary: i) (auto split: option.splits if_splits)

lemma nanargmin_least: "nanargmin xs = Some i \<Longrightarrow> j < length xs \<Longrightarrow> xs ! i \<le> xs ! j"
proof (induction xs arbitrary: i j)
  case Nil
  then show ?case by simp
next
  case (Cons x xs)
  show ?case
  proof (cases "nanargmin xs")
    case None
    then have "xs = []" by (simp add: nanargmin_None_iff)
    with Cons.prems show ?thesis by simp
  next
    case (Some k)
    have k: "\<And>m. m < length xs \<Longrightarrow> xs ! k \<le> xs ! m"
      using Cons.IH [OF Some] by simp
    show ?thesis
    proof (cases j)
      case 0
      with Cons.prems Some show ?thesis by (auto split: if_splits)
    next
      case (Suc m)
      with Cons.prems have "m < length xs" by simp
      from k [OF this] Cons.prems Some Suc show ?thesis
        by (auto split: if_splits)
    qed
  qed
qed

lemma nanargmin_first: "nanargmin xs = Some i \<Longrightarrow> j < i \<Longrightarrow> xs ! i < xs ! j"
proof (induction xs arbitrary: i j)
  case Nil
  then show ?case by simp
next
  case (Cons x xs)
  show ?case
  proof (cases "nanargmin xs")
    case None
    with Cons.prems show ?thesis by simp
  next
    case (Some k)
    show ?thesis
    proof (cases j)
      case 0
      with Cons.prems Some show ?thesis by (auto split: if_splits)
    next
      case (Suc m)
      with Cons.prems Some have "i = Suc k" "m < k" by (auto split: if_splits)
      with Cons.IH [OF Some, of m] Suc show ?thesis by simp
    qed
  qed
qed

lemma nanargmin_unique:
  assumes "i < length xs"
    and least: "\<And>j. j < length xs \<Longrightarrow> xs ! i \<le> xs ! j"
    and first: "\<And>j. j < i \<Longrightarrow> xs ! i < xs ! j"
  shows "nanargmin xs = Some i"
proof -
  from assms(1) have "xs \<noteq> []" by auto
  then obtain k where k: "nanargmin xs = Some k"
    by (cases "nanargmin xs") (auto simp: nanargmin_None_iff)
  have kb: "k < length xs" using k by (rule nanargmin_bound)
  have "\<not> k < i"
  proof
    assume "k < i"
    from first [OF this] nanargmin_least [OF k assms(1)] show False by simp
  qed
  moreover have "\<not> i < k"
  proof
    assume "i < k"
    from nanargmin_first [OF k this] least [OF kb] show False by simp
  qed
  ultimately show ?thesis using k by simp
qed

section \<open>Properties of the ROC curve\<close>

lemma filter_length_mono:
  "(\<And>p. p \<in> set xs \<Longrightarrow> P p \<Longrightarrow> Q p) \<Longrightarrow> length (filter P xs) \<le> length (filter Q xs)"
  by (induction xs) (auto simp: le_SucI)

lemma count_where_mono:
  "(\<And>l x. P l x \<Longrightarrow> Q l x) \<Longrightarrow> count_where P ys ss \<le> count_where Q ys ss"
  unfolding count_where_def by (rule filter_length_mono) auto

lemma filter_split_length:
  "length (filter (\<lambda>p. P p \<and> Q p) xs) + length (filter (\<lambda>p. P p \<and> \<not> Q p) xs) = length (filter P xs)"
  by (induction xs) auto

lemma count_where_split:
  "count_where (\<lambda>l x. P l \<and> flagged t x) ys ss + count_where (\<lambda>l x. P l \<and> \<not> flagged t x) ys ss
     = count_where (\<lambda>l x. P l) ys ss"
  unfolding count_where_def
  using filter_split_length [of "\<lambda>(l, x). P l" "\<lambda>(l, x). flagged t x" "zip ys ss"]
  by (simp add: case_prod_unfold)

lemma count_where_label_pos:
  "length ys = length ss \<Longrightarrow> c \<in> set ys \<Longrightarrow> 0 < count_where (\<lambda>l x. l = c) ys ss"
  unfolding count_where_def
  by (induction ys ss rule: list_induct2) auto

lemma FP_TN: "FP ys ss t + TN ys ss t = count_where (\<lambda>l x. l = Forged) ys ss"
  unfolding FP_def TN_def by (rule count_where_split)

lemma TP_FN: "TP ys ss t + FN ys ss t = count_where (\<lambda>l x. l = Genuine) ys ss"
  unfolding TP_def FN_def by (rule count_where_split)

lemma flagged_mono: "thr_less t2 t1 \<Longrightarrow> flagged t1 x \<Longrightarrow> flagged t2 x"
  by (cases t1; cases t2) auto

lemma FP_mono: "thr_less t2 t1 \<Longrightarrow> FP ys ss t1 \<le> FP ys ss t2"
  unfolding FP_def by (rule count_where_mono) (auto dest: flagged_mono)

lemma TP_mono: "thr_less t2 t1 \<Longrightarrow> TP ys ss t1 \<le> TP ys ss t2"
  unfolding TP_def by (rule count_where_mono) (auto dest: flagged_mono)

lemma fpr_alt:
  "false_positive_rate ys ss t = real (FP ys ss t) / real (count_where (\<lambda>l x. l = Forged) ys ss)"
  unfolding false_positive_rate_def by (simp only: FP_TN)

lemma tpr_alt:
  "true_positive_rate ys ss t = real (TP ys ss t) / real (count_where (\<lambda>l x. l = Genuine) ys ss)"
  unfolding true_positive_rate_def by (simp only: TP_FN)

lemma fpr_range: "0 \<le> false_positive_rate ys ss t \<and> false_positive_rate ys ss t \<le> 1"
proof -
  have "FP ys ss t \<le> count_where (\<lambda>l x. l = Forged) ys ss"
    using FP_TN [of ys ss t] by simp
  then show ?thesis
    unfolding fpr_alt
    by (cases "count_where (\<lambda>l x. l = Forged) ys ss = 0") (simp_all add: divide_le_eq_1)
qed

lemma tpr_range: "0 \<le> true_positive_rate ys ss t \<and> true_positive_rate ys ss t \<le> 1"
proof -
  have "TP ys ss t \<le> count_where (\<lambda>l x. l = Genuine) ys ss"
    using TP_FN [of ys ss t] by simp
  then show ?thesis
    unfolding tpr_alt
    by (cases "count_where (\<lambda>l x. l = Genuine) ys ss = 0") (simp_all add: divide_le_eq_1)
qed

lemma fpr_mono: "thr_less t2 t1 \<Longrightarrow> false_positive_rate ys ss t1 \<le> false_positive_rate ys ss t2"
  unfolding fpr_alt by (simp add: divide_right_mono FP_mono)

lemma tpr_mono: "thr_less t2 t1 \<Longrightarrow> true_positive_rate ys ss t1 \<le> true_positive_rate ys ss t2"
  unfolding tpr_alt by (simp add: divide_right_mono TP_mono)

lemma FP_PosInf: "FP ys ss PosInf = 0"
  by (simp add: FP_def count_where_def)

lemma TP_PosInf: "TP ys ss PosInf = 0"
  by (simp add: TP_def count_where_def)

lemma FP_NegInf: "FP ys ss NegInf = count_where (\<lambda>l x. l = Forged) ys ss"
  by (simp add: FP_def)

lemma TP_NegInf: "TP ys ss NegInf = count_where (\<lambda>l x. l = Genuine) ys ss"
  by (simp add: TP_def)

lemma fpr_PosInf: "false_positive_rate ys ss PosInf = 0"
  by (simp add: fpr_alt FP_PosInf)

lemma tpr_PosInf: "true_positive_rate ys ss PosInf = 0"
  by (simp add: tpr_alt TP_PosInf)

lemma fpr_NegInf:
  "length ys = length ss \<Longrightarrow> Forged \<in> set ys \<Longrightarrow> false_positive_rate ys ss NegInf = 1"
  using count_where_label_pos [of ys ss Forged] by (simp add: fpr_alt FP_NegInf)

lemma tpr_NegInf:
  "length ys = length ss \<Longrightarrow> Genuine \<in> set ys \<Longrightarrow> true_positive_rate ys ss NegInf = 1"
  using count_where_label_pos [of ys ss Genuine] by (simp add: tpr_alt TP_NegInf)

lemma roc_curve_Inr:
  assumes "length ys = length ss" "Genuine \<in> set ys" "Forged \<in> set ys"
  shows "roc_curve ys ss =
    Inr (map (false_positive_rate ys ss) (candidate_thresholds ss),
         map (true_positive_rate ys ss) (candidate_thresholds ss),
         candidate_thresholds ss)"
  using assms by (auto simp: roc_curve_def Let_def)

lemma roc_curve_Inr_iff:
  "roc_curve ys ss = Inr r \<longleftrightarrow>
     length ys = length ss \<and> Genuine \<in> set ys \<and> Forged \<in> set ys \<and>
     r = (map (false_positive_rate ys ss) (candidate_thresholds ss),
          map (true_positive_rate ys ss) (candidate_thresholds ss),
          candidate_thresholds ss)"
  by (auto simp: roc_curve_def Let_def)

lemma gaps_eq:
  "map2 (\<lambda>a b. \<bar>a - b\<bar>) (map (false_positive_rate ys ss) T)
      (map (\<lambda>v. 1 - v) (map (true_positive_rate ys ss) T)) = map (gap ys ss) T"
  by (induction T) (simp_all add: gap_def)

lemma compute_eer_select:
  assumes "length ys = length ss" "Genuine \<in> set ys" "Forged \<in> set ys"
    and "nanargmin (map (gap ys ss) (candidate_thresholds ss)) = Some idx"
  shows "compute_eer ys ss =
    Inr ((false_positive_rate ys ss (candidate_thresholds ss ! idx)
          + (1 - true_positive_rate ys ss (candidate_thresholds ss ! idx))) / 2,
         candidate_thresholds ss ! idx)"
proof -
  have "idx < length (candidate_thresholds ss)"
    using nanargmin_bound [OF assms(4)] by simp
  then have n: "map (false_positive_rate ys ss) (candidate_thresholds ss) ! idx
        = false_positive_rate ys ss (candidate_thresholds ss ! idx)"
      "map (\<lambda>v. 1 - v) (map (true_positive_rate ys ss) (candidate_thresholds ss)) ! idx
        = 1 - true_positive_rate ys ss (candidate_thresholds ss ! idx)"
    by simp_all
  show ?thesis
    by (simp only: compute_eer_def roc_curve_Inr [OF assms(1-3)] sum.case prod.case Let_def
        gaps_eq assms(4) option.case n)
qed

lemma compute_eer_at:
  assumes "length ys = length ss" "Genuine \<in> set ys" "Forged \<in> set ys"
    and "idx < length (candidate_thresholds ss)"
    and "\<And>j. j < length (candidate_thresholds ss) \<Longrightarrow>
           gap ys ss (candidate_thresholds ss ! idx) \<le> gap ys ss (candidate_thresholds ss ! j)"
    and "\<And>j. j < idx \<Longrightarrow>
           gap ys ss (candidate_thresholds ss ! idx) < gap ys ss (candidate_thresholds ss ! j)"
  shows "compute_eer ys ss =
    Inr ((false_positive_rate ys ss (candidate_thresholds ss ! idx)
          + (1 - true_positive_rate ys ss (candidate_thresholds ss ! idx))) / 2,
         candidate_thresholds ss ! idx)"
proof -
  have "nanargmin (map (gap ys ss) (candidate_thresholds ss)) = Some idx"
    using assms(4-6) by (intro nanargmin_unique) simp_all
  then show ?thesis by (rule compute_eer_select [OF assms(1-3)])
qed

lemma compute_eer_eer_index:
  "compute_eer ys ss =
     (case roc_curve ys ss of
        Inl e \<Rightarrow> Inl e
      | Inr (fpr, tpr, thresholds) \<Rightarrow>
          (case eer_index fpr tpr of
             None \<Rightarrow> Inl ValueError
           | Some idx \<Rightarrow>
               Inr ((fpr ! idx + map (\<lambda>v. 1 - v) tpr ! idx) / 2, thresholds ! idx)))"
  by (simp add: compute_eer_def eer_index_def Let_def split: sum.splits)

lemma candidate_thresholds_nonempty: "candidate_thresholds ss \<noteq> []"
  by (simp add: candidate_thresholds_def)


section \<open>Properties of the equal error rate\<close>

lemma compute_eer_exact:
  "compute_eer y_true y_score = compute_eer_with exact_arithmetic roc_curve y_true y_score"
  by (simp add: compute_eer_def compute_eer_with_def exact_arithmetic_def Let_def
      split: sum.splits prod.splits option.splits)

text \<open>
  Claim C1. Whatever arrays \<^verbatim>\<open>roc_curve\<close> returns (three arrays of one length, not empty,
  as it does when both classes are present) and however the arithmetic rounds,
  \<open>compute_eer\<close> takes the false negative rate \<open>1 - tpr\<close> at every ROC point, selects the
  first index, in the order of the arrays, at which the computed \<open>\<bar>fpr - fnr\<bar>\<close> is
  smallest, and returns the computed average of the two rates at that index with the
  threshold of that index: a value read off one ROC point, not interpolated between two.
\<close>

theorem compute_eer_nearest_point:
  fixes F :: "('a::linorder) arithmetic"
  assumes "roc_curve_lib y_true y_score = Inr (fpr, tpr, thresholds)"
    and "length fpr = length thresholds" "length tpr = length thresholds" "thresholds \<noteq> []"
  shows "\<exists>idx < length thresholds.
     (\<forall>j < length thresholds.
        f_abs F (f_sub F (fpr ! idx) (f_sub F (f_one F) (tpr ! idx)))
          \<le> f_abs F (f_sub F (fpr ! j) (f_sub F (f_one F) (tpr ! j)))) \<and>
     (\<forall>j < idx.
        f_abs F (f_sub F (fpr ! idx) (f_sub F (f_one F) (tpr ! idx)))
          < f_abs F (f_sub F (fpr ! j) (f_sub F (f_one F) (tpr ! j)))) \<and>
     compute_eer_with F roc_curve_lib y_true y_score =
       Inr (f_div F (f_add F (fpr ! idx) (f_sub F (f_one F) (tpr ! idx))) (f_two F),
            thresholds ! idx)"
proof -
  let ?fnr = "map (\<lambda>v. f_sub F (f_one F) v) tpr"
  let ?g = "map2 (\<lambda>a b. f_abs F (f_sub F a b)) fpr ?fnr"
  have len: "length ?g = length thresholds"
    using assms(2,3) by simp
  have nth: "?g ! j = f_abs F (f_sub F (fpr ! j) (f_sub F (f_one F) (tpr ! j)))"
    if "j < length thresholds" for j
    using that assms(2,3) by simp
  have "?g \<noteq> []" using len assms(4) by auto
  then obtain idx where idx: "nanargmin ?g = Some idx"
    by (cases "nanargmin ?g") (auto simp: nanargmin_None_iff)
  have b: "idx < length thresholds"
    using nanargmin_bound [OF idx] assms(2,3) by simp
  have least: "\<forall>j < length thresholds.
        f_abs F (f_sub F (fpr ! idx) (f_sub F (f_one F) (tpr ! idx)))
          \<le> f_abs F (f_sub F (fpr ! j) (f_sub F (f_one F) (tpr ! j)))"
  proof (intro allI impI)
    fix j assume j: "j < length thresholds"
    then have "j < length ?g" by (simp only: len)
    then have "?g ! idx \<le> ?g ! j" by (rule nanargmin_least [OF idx])
    then show "f_abs F (f_sub F (fpr ! idx) (f_sub F (f_one F) (tpr ! idx)))
          \<le> f_abs F (f_sub F (fpr ! j) (f_sub F (f_one F) (tpr ! j)))"
      by (simp only: nth [OF j] nth [OF b])
  qed
  have first: "\<forall>j < idx.
        f_abs F (f_sub F (fpr ! idx) (f_sub F (f_one F) (tpr ! idx)))
          < f_abs F (f_sub F (fpr ! j) (f_sub F (f_one F) (tpr ! j)))"
  proof (intro allI impI)
    fix j assume j: "j < idx"
    then have jb: "j < length thresholds" using b by simp
    from j have "?g ! idx < ?g ! j" by (rule nanargmin_first [OF idx])
    then show "f_abs F (f_sub F (fpr ! idx) (f_sub F (f_one F) (tpr ! idx)))
          < f_abs F (f_sub F (fpr ! j) (f_sub F (f_one F) (tpr ! j)))"
      by (simp only: nth [OF jb] nth [OF b])
  qed
  have fnr: "?fnr ! idx = f_sub F (f_one F) (tpr ! idx)"
    using b assms(3) by simp
  have res: "compute_eer_with F roc_curve_lib y_true y_score =
       Inr (f_div F (f_add F (fpr ! idx) (f_sub F (f_one F) (tpr ! idx))) (f_two F),
            thresholds ! idx)"
    by (simp only: compute_eer_with_def assms(1) sum.case prod.case Let_def idx option.case fnr)
  from b least first res show ?thesis by blast
qed

theorem compute_eer_nearest_point_witness:
  "\<exists>idx < length [PosInf, Thr (3/4), Thr (1/4), NegInf].
     (\<forall>j < length [PosInf, Thr (3/4), Thr (1/4), NegInf].
        f_abs coarse_arithmetic (f_sub coarse_arithmetic ([0, 1/8, 7/8, 1] ! idx)
            (f_sub coarse_arithmetic (f_one coarse_arithmetic) ([0, 1/2, 1/2, 1] ! idx)))
          \<le> f_abs coarse_arithmetic (f_sub coarse_arithmetic ([0, 1/8, 7/8, 1] ! j)
            (f_sub coarse_arithmetic (f_one coarse_arithmetic) ([0, 1/2, 1/2, 1] ! j)))) \<and>
     (\<forall>j < idx.
        f_abs coarse_arithmetic (f_sub coarse_arithmetic ([0, 1/8, 7/8, 1] ! idx)
            (f_sub coarse_arithmetic (f_one coarse_arithmetic) ([0, 1/2, 1/2, 1] ! idx)))
          < f_abs coarse_arithmetic (f_sub coarse_arithmetic ([0, 1/8, 7/8, 1] ! j)
            (f_sub coarse_arithmetic (f_one coarse_arithmetic) ([0, 1/2, 1/2, 1] ! j)))) \<and>
     compute_eer_with coarse_arithmetic
       (\<lambda>_ _. Inr ([0, 1/8, 7/8, 1], [0, 1/2, 1/2, 1], [PosInf, Thr (3/4), Thr (1/4), NegInf]))
       [Genuine, Forged] [3/4, 1/4 :: real]
     = Inr (f_div coarse_arithmetic
              (f_add coarse_arithmetic ([0, 1/8, 7/8, 1] ! idx)
                 (f_sub coarse_arithmetic (f_one coarse_arithmetic) ([0, 1/2, 1/2, 1] ! idx)))
              (f_two coarse_arithmetic),
            [PosInf, Thr (3/4), Thr (1/4), NegInf] ! idx)"
  by (rule compute_eer_nearest_point) simp_all

text \<open>
  Rounding can change which index is selected: the gaps at indices 1 and 2 below are both
  3/8 exactly, so exact arithmetic selects index 1; the rounding arithmetic computes 1/2
  and 1/4 and selects index 2.
\<close>

lemma rounding_example:
  "compute_eer_with coarse_arithmetic
     (\<lambda>_ _. Inr ([0, 1/8, 7/8, 1], [0, 1/2, 1/2, 1], [PosInf, Thr (3/4), Thr (1/4), NegInf]))
     [Genuine, Forged] [3/4, 1/4 :: real]
   = Inr (11/16, Thr (1/4))"
  by (simp add: compute_eer_with_def coarse_arithmetic_def)

lemma exact_example:
  "compute_eer_with exact_arithmetic
     (\<lambda>_ _. Inr ([0, 1/8, 7/8, 1], [0, 1/2, 1/2, 1], [PosInf, Thr (3/4), Thr (1/4), NegInf]))
     [Genuine, Forged] [3/4, 1/4 :: real]
   = Inr (5/16, Thr (3/4))"
  by (simp add: compute_eer_with_def exact_arithmetic_def)


lemma candidate_thresholds_descending:
  "sorted_wrt (\<lambda>a b. thr_less b a) (candidate_thresholds ss)"
proof -
  have "sorted_wrt (<) (sort (remdups ss))"
    by (simp add: strict_sorted_iff)
  then have "sorted_wrt (\<lambda>a b. b < a) (rev (sort (remdups ss)))"
    by (simp add: sorted_wrt_rev)
  then have "sorted_wrt (\<lambda>a b. thr_less b a) (map Thr (rev (sort (remdups ss))))"
    by (simp add: sorted_wrt_map)
  then show ?thesis
    by (auto simp: candidate_thresholds_def sorted_wrt_append)
qed

lemma candidate_thresholds_set:
  "set (candidate_thresholds ss) = {PosInf, NegInf} \<union> Thr ` set ss"
  by (auto simp: candidate_thresholds_def)

lemma candidate_thresholds_length:
  "length (candidate_thresholds ss) = card (set ss) + 2"
  by (simp add: candidate_thresholds_def length_remdups_card_conv)

lemma candidate_thresholds_first: "candidate_thresholds ss ! 0 = PosInf"
  by (simp add: candidate_thresholds_def)

lemma candidate_thresholds_last: "last (candidate_thresholds ss) = NegInf"
  by (simp add: candidate_thresholds_def)

text \<open>
  Claim C2. The ROC curve has one point for every distinct score, used as a threshold,
  and one for each of the two boundary thresholds, above the maximum and below the
  minimum; the thresholds are strictly descending; the curve starts at (0, 0) and ends
  at (1, 1), and both rates are non-decreasing along it.
\<close>

theorem roc_curve_points:
  assumes "roc_curve y_true y_score = Inr (fpr, tpr, thresholds)"
  shows "length fpr = length thresholds \<and> length tpr = length thresholds \<and>
    set thresholds = {PosInf, NegInf} \<union> Thr ` set y_score \<and>
    length thresholds = card (set y_score) + 2 \<and>
    (\<forall>i j. i < j \<and> j < length thresholds \<longrightarrow> thr_less (thresholds ! j) (thresholds ! i)) \<and>
    thresholds ! 0 = PosInf \<and> fpr ! 0 = 0 \<and> tpr ! 0 = 0 \<and>
    last thresholds = NegInf \<and> last fpr = 1 \<and> last tpr = 1 \<and>
    (\<forall>i j. i \<le> j \<and> j < length thresholds \<longrightarrow> fpr ! i \<le> fpr ! j \<and> tpr ! i \<le> tpr ! j)"
proof -
  let ?T = "candidate_thresholds y_score"
  from assms have v: "length y_true = length y_score" "Genuine \<in> set y_true" "Forged \<in> set y_true"
    and fpr: "fpr = map (false_positive_rate y_true y_score) ?T"
    and tpr: "tpr = map (true_positive_rate y_true y_score) ?T"
    and thr: "thresholds = ?T"
    by (simp_all add: roc_curve_Inr_iff)
  have ne: "?T \<noteq> []" by (rule candidate_thresholds_nonempty)
  have desc: "\<forall>i j. i < j \<and> j < length ?T \<longrightarrow> thr_less (?T ! j) (?T ! i)"
    using candidate_thresholds_descending [of y_score] by (simp add: sorted_wrt_iff_nth_less)
  have mono: "\<forall>i j. i \<le> j \<and> j < length ?T \<longrightarrow> fpr ! i \<le> fpr ! j \<and> tpr ! i \<le> tpr ! j"
  proof (intro allI impI)
    fix i j assume ij: "i \<le> j \<and> j < length ?T"
    show "fpr ! i \<le> fpr ! j \<and> tpr ! i \<le> tpr ! j"
    proof (cases "i = j")
      case True
      then show ?thesis by simp
    next
      case False
      with ij desc have "thr_less (?T ! j) (?T ! i)" by simp
      with ij show ?thesis
        by (simp add: fpr tpr fpr_mono tpr_mono)
    qed
  qed
  have first: "fpr ! 0 = 0 \<and> tpr ! 0 = 0"
    using ne by (simp add: fpr tpr nth_map candidate_thresholds_first fpr_PosInf tpr_PosInf)
  have lst: "last fpr = 1 \<and> last tpr = 1"
    using ne v by (simp add: fpr tpr last_map candidate_thresholds_last fpr_NegInf tpr_NegInf)
  show ?thesis
    using mono first lst desc
    by (simp add: thr fpr tpr candidate_thresholds_set candidate_thresholds_length
        candidate_thresholds_first candidate_thresholds_last)
qed

lemma roc_curve_example:
  "roc_curve [Genuine, Forged, Genuine, Forged] [6/10, 6/10, 4/10, 4/10]
     = Inr ([0, 1/2, 1, 1], [0, 1/2, 1, 1], [PosInf, Thr (3/5), Thr (2/5), NegInf])"
  by (simp add: roc_curve_def candidate_thresholds_def false_positive_rate_def
      true_positive_rate_def FP_def TN_def TP_def FN_def count_where_def)

theorem roc_curve_points_witness:
  "roc_curve [Genuine, Forged, Genuine, Forged] [6/10, 6/10, 4/10, 4/10]
     = Inr ([0, 1/2, 1, 1], [0, 1/2, 1, 1], [PosInf, Thr (3/5), Thr (2/5), NegInf]) \<and>
   set [PosInf, Thr (3/5), Thr (2/5), NegInf]
     = {PosInf, NegInf} \<union> Thr ` set [6/10, 6/10, 4/10, 4/10] \<and>
   length [PosInf, Thr (3/5), Thr (2/5), NegInf] = card (set [6/10, 6/10, 4/10, 4/10 :: real]) + 2 \<and>
   [0, 1/2, 1, 1 :: real] ! 0 = 0 \<and> last [0, 1/2, 1, 1 :: real] = 1"
  using roc_curve_points [OF roc_curve_example] roc_curve_example by simp

lemma gap_le_one: "gap ys ss t \<le> 1"
  using fpr_range [of ys ss t] tpr_range [of ys ss t] by (simp add: gap_def abs_le_iff)

lemma compute_eer_returns:
  assumes "length y_true = length y_score" "Genuine \<in> set y_true" "Forged \<in> set y_true"
  shows "\<exists>eer t. compute_eer y_true y_score = Inr (eer, t) \<and> 0 \<le> eer \<and> eer \<le> 1"
proof -
  let ?T = "candidate_thresholds y_score"
  obtain idx where idx: "nanargmin (map (gap y_true y_score) ?T) = Some idx"
    by (cases "nanargmin (map (gap y_true y_score) ?T)")
       (auto simp: nanargmin_None_iff candidate_thresholds_nonempty)
  let ?eer = "(false_positive_rate y_true y_score (?T ! idx)
                + (1 - true_positive_rate y_true y_score (?T ! idx))) / 2"
  have "0 \<le> ?eer \<and> ?eer \<le> 1"
    using fpr_range [of y_true y_score "?T ! idx"] tpr_range [of y_true y_score "?T ! idx"]
    by simp
  with compute_eer_select [OF assms idx] show ?thesis by blast
qed

text \<open>
  Claim C3, as amended. On every valid input (sequences of equal length with both classes
  present) \<open>compute_eer\<close> returns, and the equal error rate it returns lies in the
  interval from 0 to 1.
\<close>

theorem compute_eer_range:
  assumes "length y_true = length y_score" "Genuine \<in> set y_true" "Forged \<in> set y_true"
  shows "\<exists>eer t. compute_eer y_true y_score = Inr (eer, t) \<and> 0 \<le> eer \<and> eer \<le> 1"
  using assms by (rule compute_eer_returns)

theorem compute_eer_range_witness:
  "\<exists>eer t. compute_eer [Genuine, Forged] [1/10, 9/10] = Inr (eer, t) \<and> 0 \<le> eer \<and> eer \<le> 1"
  using compute_eer_range [of "[Genuine, Forged]" "[1/10, 9/10]"] by simp

text \<open>
  Claim C3 as stated (the rate is at most 0.5) fails: when the genuine example scores
  below the forged one, the selected ROC point has both error rates equal to 1.
\<close>

theorem compute_eer_above_half:
  "compute_eer [Genuine, Forged] [1/10, 9/10] = Inr (1, Thr (9/10)) \<and> (1/2 :: real) < 1"
  by (simp add: compute_eer_def roc_curve_def candidate_thresholds_def false_positive_rate_def
      true_positive_rate_def FP_def TN_def TP_def FN_def count_where_def)

lemma label_not_Forged: "l \<noteq> Forged \<Longrightarrow> l = Genuine"
  by (cases l) simp_all

lemma label_not_Genuine: "l \<noteq> Genuine \<Longrightarrow> l = Forged"
  by (cases l) simp_all

text \<open>
  Claim C6. On non-empty sequences of equal length, \<open>compute_eer\<close> fails with
  \<open>DegenerateLabelSet\<close> exactly when all labels are the same, and with both classes
  present it returns a result.
\<close>

theorem compute_eer_degenerate:
  assumes "length y_true = length y_score" "y_true \<noteq> []"
  shows "(compute_eer y_true y_score = Inl DegenerateLabelSet \<longleftrightarrow> (\<exists>c. set y_true = {c})) \<and>
         (Genuine \<in> set y_true \<and> Forged \<in> set y_true \<longrightarrow>
            (\<exists>eer t. compute_eer y_true y_score = Inr (eer, t)))"
proof (cases "Genuine \<in> set y_true \<and> Forged \<in> set y_true")
  case True
  then have "\<exists>eer t. compute_eer y_true y_score = Inr (eer, t) \<and> 0 \<le> eer \<and> eer \<le> 1"
    using assms(1) by (intro compute_eer_returns) simp_all
  then obtain eer t where r: "compute_eer y_true y_score = Inr (eer, t)" by blast
  have "\<not> (\<exists>c. set y_true = {c})"
    using True by auto
  with r show ?thesis by auto
next
  case False
  then have "roc_curve y_true y_score = Inl DegenerateLabelSet"
    using assms by (auto simp: roc_curve_def)
  then have "compute_eer y_true y_score = Inl DegenerateLabelSet"
    by (simp add: compute_eer_def)
  moreover have "\<exists>c. set y_true = {c}"
  proof (cases "Genuine \<in> set y_true")
    case True
    with False have "Forged \<notin> set y_true" by simp
    then have "\<forall>l \<in> set y_true. l = Genuine" by (metis label_not_Forged)
    with True have "set y_true = {Genuine}" by auto
    then show ?thesis by blast
  next
    case False
    then have "\<forall>l \<in> set y_true. l = Forged" by (metis label_not_Genuine)
    with assms(2) have "set y_true = {Forged}" by (cases y_true) auto
    then show ?thesis by blast
  qed
  ultimately show ?thesis using False by simp
qed

theorem compute_eer_degenerate_witness:
  "(compute_eer [Genuine, Genuine] [1/10, 9/10] = Inl DegenerateLabelSet
      \<longleftrightarrow> (\<exists>c. set [Genuine, Genuine] = {c})) \<and>
   compute_eer [Genuine, Genuine] [1/10, 9/10] = Inl DegenerateLabelSet \<and>
   (\<exists>eer t. compute_eer [Genuine, Forged] [1/10, 9/10] = Inr (eer, t))"
  using compute_eer_degenerate [of "[Genuine, Genuine]" "[1/10, 9/10]"]
    compute_eer_degenerate [of "[Genuine, Forged]" "[1/10, 9/10]"]
  by (simp add: compute_eer_def roc_curve_def)


lemma count_where_cong:
  "(\<And>l x. x \<in> set ss \<Longrightarrow> P l x = Q l x) \<Longrightarrow> count_where P ys ss = count_where Q ys ss"
  unfolding count_where_def
  by (rule arg_cong [where f = length], rule filter_cong) (auto dest: set_zip_rightD)

lemma constant_scores_thresholds:
  assumes "set ss = {v}"
  shows "candidate_thresholds ss = [PosInf, Thr v, NegInf]"
proof -
  have "sort (remdups ss) = sorted_list_of_set (set ss)"
    by (simp add: sorted_list_of_set_sort_remdups)
  also have "\<dots> = [v]" using assms by simp
  finally show ?thesis by (simp add: candidate_thresholds_def)
qed

lemma constant_scores_rates:
  assumes "length ys = length ss" "Genuine \<in> set ys" "Forged \<in> set ys" "set ss = {v}"
  shows "false_positive_rate ys ss (Thr v) = 1" "true_positive_rate ys ss (Thr v) = 1"
proof -
  have "FP ys ss (Thr v) = FP ys ss NegInf"
    unfolding FP_def using assms(4) by (intro count_where_cong) auto
  then show "false_positive_rate ys ss (Thr v) = 1"
    using fpr_NegInf [OF assms(1,3)] by (simp add: fpr_alt)
  have "TP ys ss (Thr v) = TP ys ss NegInf"
    unfolding TP_def using assms(4) by (intro count_where_cong) auto
  then show "true_positive_rate ys ss (Thr v) = 1"
    using tpr_NegInf [OF assms(1,2)] by (simp add: tpr_alt)
qed

lemma constant_scores_roc:
  assumes "length ys = length ss" "Genuine \<in> set ys" "Forged \<in> set ys" "set ss = {v}"
  shows "roc_curve ys ss = Inr ([0, 1, 1], [0, 1, 1], [PosInf, Thr v, NegInf])"
  by (simp add: roc_curve_Inr [OF assms(1-3)] constant_scores_thresholds [OF assms(4)]
      constant_scores_rates [OF assms] fpr_PosInf tpr_PosInf
      fpr_NegInf [OF assms(1,3)] tpr_NegInf [OF assms(1,2)])

lemma constant_scores_eer:
  assumes "length ys = length ss" "Genuine \<in> set ys" "Forged \<in> set ys" "set ss = {v}"
  shows "compute_eer ys ss = Inr (1/2, PosInf)"
  by (simp add: compute_eer_def constant_scores_roc [OF assms])

text \<open>
  Claim C7, as amended. When all scores are the same value and both classes are present,
  \<open>compute_eer\<close> selects the initial ROC point (index 0, the boundary threshold above all
  scores), where the false positive rate is 0 and the false negative rate is 1, and
  returns their average, exactly 0.5, with that threshold.
\<close>

theorem compute_eer_constant_scores:
  assumes "length y_true = length y_score" "Genuine \<in> set y_true" "Forged \<in> set y_true"
    and "set y_score = {v}"
  shows "compute_eer y_true y_score = Inr (1/2, PosInf) \<and>
     (case roc_curve y_true y_score of
        Inl e \<Rightarrow> False
      | Inr (fpr, tpr, thresholds) \<Rightarrow>
          eer_index fpr tpr = Some 0 \<and> thresholds ! 0 = PosInf \<and>
          fpr ! 0 = 0 \<and> 1 - tpr ! 0 = 1)"
  by (simp add: constant_scores_roc [OF assms] constant_scores_eer [OF assms] eer_index_def)

theorem compute_eer_constant_scores_witness:
  "compute_eer [Genuine, Forged, Forged] [1/2, 1/2, 1/2] = Inr (1/2, PosInf) \<and>
     (case roc_curve [Genuine, Forged, Forged] [1/2, 1/2, 1/2] of
        Inl e \<Rightarrow> False
      | Inr (fpr, tpr, thresholds) \<Rightarrow>
          eer_index fpr tpr = Some 0 \<and> thresholds ! 0 = PosInf \<and>
          fpr ! 0 = 0 \<and> 1 - tpr ! 0 = 1)"
  using compute_eer_constant_scores [of "[Genuine, Forged, Forged]" "[1/2, 1/2, 1/2]" "1/2"]
  by simp

text \<open>
  Claim C7 as stated (both rates are about 0.5 at the selected threshold) fails: at the
  selected index the false positive rate is 0 and the false negative rate is 1.
\<close>

theorem constant_scores_rates_not_half:
  "roc_curve [Genuine, Forged] [1/2, 1/2] = Inr ([0, 1, 1], [0, 1, 1], [PosInf, Thr (1/2), NegInf]) \<and>
   eer_index [0, 1, 1] [0, 1, 1] = Some 0 \<and>
   [0, 1, 1 :: real] ! 0 = 0 \<and> 1 - [0, 1, 1 :: real] ! 0 = 1"
  by (simp add: eer_index_def roc_curve_def candidate_thresholds_def false_positive_rate_def
      true_positive_rate_def FP_def TN_def TP_def FN_def count_where_def)

text \<open>
  Claim C10. The returned threshold need not be a score: when all scores are the same
  value and both classes are present, the selected ROC point is the initial one, at
  which no example is flagged positive, and the returned threshold is the boundary
  threshold, which is no element of \<open>y_score\<close> and strictly greater than every score.
\<close>

theorem eer_threshold_sentinel:
  assumes "length y_true = length y_score" "Genuine \<in> set y_true" "Forged \<in> set y_true"
    and "set y_score = {v}"
  shows "compute_eer y_true y_score = Inr (1/2, PosInf) \<and>
     PosInf \<notin> Thr ` set y_score \<and>
     (\<forall>x \<in> set y_score. thr_less (Thr x) PosInf \<and> \<not> flagged PosInf x)"
  using constant_scores_eer [OF assms] by auto

theorem eer_threshold_sentinel_witness:
  "compute_eer [Genuine, Forged] [7/10, 7/10] = Inr (1/2, PosInf) \<and>
     PosInf \<notin> Thr ` set [7/10, 7/10] \<and>
     thr_less (Thr (7/10)) PosInf \<and> \<not> flagged PosInf (7/10)"
  using eer_threshold_sentinel [of "[Genuine, Forged]" "[7/10, 7/10]" "7/10"]
  by simp


lemma count_where_cong_zip:
  "(\<And>l x. (l, x) \<in> set (zip ys ss) \<Longrightarrow> P l x = Q l x) \<Longrightarrow> count_where P ys ss = count_where Q ys ss"
  unfolding count_where_def
  by (rule arg_cong [where f = length], rule filter_cong) auto

lemma count_where_pos:
  "(l, x) \<in> set (zip ys ss) \<Longrightarrow> P l x \<Longrightarrow> 0 < count_where P ys ss"
  unfolding count_where_def
  by (rule length_pos_if_in_set [of "(l, x)"]) simp

lemma count_where_False: "count_where (\<lambda>l x. False) ys ss = 0"
  by (simp add: count_where_def)

lemma set_scores_of: "set (scores_of c ys ss) = {x. (c, x) \<in> set (zip ys ss)}"
  by (force simp: scores_of_def)

lemma scores_of_nonempty:
  "length ys = length ss \<Longrightarrow> c \<in> set ys \<Longrightarrow> scores_of c ys ss \<noteq> []"
  by (induction ys ss rule: list_induct2) (auto simp: scores_of_def)

lemma separable_eer:
  assumes len: "length ys = length ss" and g: "Genuine \<in> set ys" and f: "Forged \<in> set ys"
    and sep: "\<forall>a \<in> set (scores_of Genuine ys ss). \<forall>b \<in> set (scores_of Forged ys ss). b < a"
  shows "compute_eer ys ss = Inr (0, Thr (Min (set (scores_of Genuine ys ss))))"
proof -
  let ?m = "Min (set (scores_of Genuine ys ss))"
  let ?T = "candidate_thresholds ss"
  have ne: "set (scores_of Genuine ys ss) \<noteq> {}"
    using scores_of_nonempty [OF len g] by simp
  have m_in: "?m \<in> set (scores_of Genuine ys ss)"
    using ne by (intro Min_in) simp_all
  then have m_zip: "(Genuine, ?m) \<in> set (zip ys ss)"
    by (simp add: set_scores_of)
  then have m_ss: "?m \<in> set ss" by (rule set_zip_rightD)
  have gen_ge: "?m \<le> x" if "(Genuine, x) \<in> set (zip ys ss)" for x
  proof -
    from that have "x \<in> set (scores_of Genuine ys ss)" by (simp add: set_scores_of)
    then show ?thesis by (intro Min_le) simp_all
  qed
  have forg_lt: "\<And>x. (Forged, x) \<in> set (zip ys ss) \<Longrightarrow> x < ?m"
    using sep m_in by (simp add: set_scores_of)
  have FP_m: "FP ys ss (Thr ?m) = 0"
  proof -
    have "FP ys ss (Thr ?m) = count_where (\<lambda>l x. False) ys ss"
      unfolding FP_def using forg_lt by (intro count_where_cong_zip) (auto simp: not_le)
    then show ?thesis by (simp add: count_where_False)
  qed
  have TP_m: "TP ys ss (Thr ?m) = TP ys ss NegInf"
    unfolding TP_def using gen_ge by (intro count_where_cong_zip) auto
  have fpr_m: "false_positive_rate ys ss (Thr ?m) = 0"
    by (simp add: fpr_alt FP_m)
  have tpr_m: "true_positive_rate ys ss (Thr ?m) = 1"
    using tpr_NegInf [OF len g] by (simp add: tpr_alt TP_m)
  have gap_m: "gap ys ss (Thr ?m) = 0"
    by (simp add: gap_def fpr_m tpr_m)
  have gap_above: "0 < gap ys ss t" if t: "thr_less (Thr ?m) t" for t
  proof -
    have "FP ys ss t \<le> FP ys ss (Thr ?m)" using t by (rule FP_mono)
    then have fp: "false_positive_rate ys ss t = 0"
      by (simp add: fpr_alt FP_m)
    have "\<not> flagged t ?m" using t by (cases t) auto
    then have fn: "0 < FN ys ss t"
      unfolding FN_def using m_zip by (intro count_where_pos [of Genuine ?m]) simp_all
    have "true_positive_rate ys ss t < 1"
      unfolding true_positive_rate_def using fn by simp
    then show ?thesis by (simp add: gap_def fp)
  qed
  have "Thr ?m \<in> set ?T"
    using m_ss by (simp add: candidate_thresholds_set)
  then obtain idx where idx: "idx < length ?T" "?T ! idx = Thr ?m"
    by (auto simp: in_set_conv_nth)
  have desc: "\<And>j. j < idx \<Longrightarrow> thr_less (?T ! idx) (?T ! j)"
    using candidate_thresholds_descending [of ss] idx(1)
    by (simp add: sorted_wrt_iff_nth_less)
  have "compute_eer ys ss =
    Inr ((false_positive_rate ys ss (?T ! idx) + (1 - true_positive_rate ys ss (?T ! idx))) / 2,
         ?T ! idx)"
  proof (rule compute_eer_at [OF len g f idx(1)])
    fix j assume "j < length ?T"
    show "gap ys ss (?T ! idx) \<le> gap ys ss (?T ! j)"
      by (simp add: idx(2) gap_m) (simp add: gap_def)
  next
    fix j assume "j < idx"
    from desc [OF this] show "gap ys ss (?T ! idx) < gap ys ss (?T ! j)"
      by (simp add: idx(2) gap_m gap_above)
  qed
  then show ?thesis by (simp add: idx(2) fpr_m tpr_m)
qed

text \<open>
  Claim C8, as amended. When every genuine score is strictly greater than every forged
  score, \<open>compute_eer\<close> returns an equal error rate of 0, and the threshold it returns is
  the smallest genuine score, which is strictly greater than every forged score.
\<close>

theorem compute_eer_separable:
  assumes "length y_true = length y_score" "Genuine \<in> set y_true" "Forged \<in> set y_true"
    and "\<forall>a \<in> set (scores_of Genuine y_true y_score).
           \<forall>b \<in> set (scores_of Forged y_true y_score). b < a"
  shows "compute_eer y_true y_score = Inr (0, Thr (Min (set (scores_of Genuine y_true y_score)))) \<and>
         (\<forall>b \<in> set (scores_of Forged y_true y_score).
            b < Min (set (scores_of Genuine y_true y_score)))"
proof -
  have "set (scores_of Genuine y_true y_score) \<noteq> {}"
    using scores_of_nonempty [OF assms(1,2)] by simp
  then have "Min (set (scores_of Genuine y_true y_score)) \<in> set (scores_of Genuine y_true y_score)"
    by (intro Min_in) simp_all
  with assms(4) separable_eer [OF assms] show ?thesis by blast
qed

theorem compute_eer_separable_witness:
  "compute_eer [Genuine, Genuine, Forged, Forged] [9/10, 8/10, 3/10, 1/10] = Inr (0, Thr (4/5)) \<and>
   Min (set (scores_of Genuine [Genuine, Genuine, Forged, Forged] [9/10, 8/10, 3/10, 1/10])) = 4/5 \<and>
   Max (set (scores_of Forged [Genuine, Genuine, Forged, Forged] [9/10, 8/10, 3/10, 1/10])) < 4/5"
  using compute_eer_separable [of "[Genuine, Genuine, Forged, Forged]" "[9/10, 8/10, 3/10, 1/10]"]
  by (simp add: scores_of_def)

text \<open>
  Claim C8 as stated (the threshold lies strictly between the two clusters) fails: on
  the specification's own scenario the threshold is 0.8, the smallest genuine score
  itself, so it is not strictly below that score.
\<close>

theorem separable_threshold_not_between:
  "compute_eer [Genuine, Genuine, Forged, Forged] [9/10, 8/10, 3/10, 1/10] = Inr (0, Thr (4/5)) \<and>
   \<not> 4/5 < Min (set (scores_of Genuine [Genuine, Genuine, Forged, Forged] [9/10, 8/10, 3/10, 1/10]))"
  by (simp add: scores_of_def compute_eer_def roc_curve_def candidate_thresholds_def
      false_positive_rate_def true_positive_rate_def FP_def TN_def TP_def FN_def count_where_def)

lemma sort_remdups_map:
  assumes "strict_mono (f :: real \<Rightarrow> real)"
  shows "sort (remdups (map f ss)) = map f (sort (remdups ss))"
proof (rule sorted_distinct_set_unique)
  have "mono f" using assms by (rule strict_mono_mono)
  then show "sorted (map f (sort (remdups ss)))"
    by (intro sorted_map_mono) (simp_all add: mono_on_def mono_def)
  have "inj_on f (set ss)" using assms by (rule strict_mono_imp_inj_on)
  then show "distinct (map f (sort (remdups ss)))"
    by (simp add: distinct_map)
qed simp_all

lemma candidate_thresholds_map:
  "strict_mono f \<Longrightarrow>
     candidate_thresholds (map f ss) = map (map_threshold f) (candidate_thresholds ss)"
  by (simp add: candidate_thresholds_def sort_remdups_map rev_map)

lemma flagged_map: "strict_mono f \<Longrightarrow> flagged (map_threshold f t) (f x) = flagged t x"
  by (cases t) (simp_all add: strict_mono_less_eq)

lemma count_where_map:
  "count_where P ys (map f ss) = count_where (\<lambda>l x. P l (f x)) ys ss"
  by (simp add: count_where_def zip_map2 filter_map comp_def case_prod_unfold)

lemma rates_map:
  assumes "strict_mono f"
  shows "false_positive_rate ys (map f ss) (map_threshold f t) = false_positive_rate ys ss t"
    and "true_positive_rate ys (map f ss) (map_threshold f t) = true_positive_rate ys ss t"
  by (simp_all add: false_positive_rate_def true_positive_rate_def FP_def TN_def TP_def FN_def
      count_where_map flagged_map [OF assms])

lemma gap_map:
  "strict_mono f \<Longrightarrow> gap ys (map f ss) (map_threshold f t) = gap ys ss t"
  by (simp add: gap_def rates_map)

lemma compute_eer_map:
  assumes sm: "strict_mono f"
  shows "compute_eer ys (map f ss) = map_sum id (map_prod id (map_threshold f)) (compute_eer ys ss)"
proof (cases "length ys = length ss \<and> Genuine \<in> set ys \<and> Forged \<in> set ys")
  case True
  then have v: "length ys = length ss" "Genuine \<in> set ys" "Forged \<in> set ys" by simp_all
  have v': "length ys = length (map f ss)" using v(1) by simp
  let ?T = "candidate_thresholds ss"
  obtain idx where idx: "nanargmin (map (gap ys ss) ?T) = Some idx"
    by (cases "nanargmin (map (gap ys ss) ?T)")
       (auto simp: nanargmin_None_iff candidate_thresholds_nonempty)
  have b: "idx < length ?T" using nanargmin_bound [OF idx] by simp
  have "map (gap ys (map f ss)) (candidate_thresholds (map f ss)) = map (gap ys ss) ?T"
    by (simp add: candidate_thresholds_map [OF sm] gap_map [OF sm] comp_def)
  then have idx': "nanargmin (map (gap ys (map f ss)) (candidate_thresholds (map f ss))) = Some idx"
    using idx by simp
  have nth: "candidate_thresholds (map f ss) ! idx = map_threshold f (?T ! idx)"
    using b by (simp add: candidate_thresholds_map [OF sm])
  show ?thesis
    by (simp add: compute_eer_select [OF v idx] compute_eer_select [OF v' v(2,3) idx'] nth
        rates_map [OF sm])
next
  case False
  then have "roc_curve ys (map f ss) = roc_curve ys ss \<and> (\<exists>e. roc_curve ys ss = Inl e)"
    by (auto simp: roc_curve_def)
  then show ?thesis by (auto simp: compute_eer_def)
qed

text \<open>
  Claim C9. Applying a strictly increasing function to every score leaves the outcome
  of \<open>compute_eer\<close> unchanged, apart from the returned threshold, which is the image of
  the original one: the equal error rate is the same, and so is the error on an input
  that is not valid.
\<close>

theorem compute_eer_monotone_invariant:
  assumes "strict_mono f"
  shows "compute_eer y_true (map f y_score)
           = map_sum id (map_prod id (map_threshold f)) (compute_eer y_true y_score) \<and>
         map_sum id fst (compute_eer y_true (map f y_score))
           = map_sum id fst (compute_eer y_true y_score)"
proof -
  have "map_sum id fst (map_sum id (map_prod id (map_threshold f)) r) = map_sum id fst r"
    for r :: "error + real \<times> threshold"
    by (cases r) auto
  then show ?thesis by (simp add: compute_eer_map [OF assms])
qed

theorem compute_eer_monotone_invariant_witness:
  "strict_mono (\<lambda>x :: real. 2 * x) \<and>
   compute_eer [Genuine, Forged, Genuine] (map (\<lambda>x. 2 * x) [3/10, 2/10, 1/10])
     = map_sum id (map_prod id (map_threshold (\<lambda>x. 2 * x)))
         (compute_eer [Genuine, Forged, Genuine] [3/10, 2/10, 1/10]) \<and>
   map_sum id fst (compute_eer [Genuine, Forged, Genuine] (map (\<lambda>x. 2 * x) [3/10, 2/10, 1/10]))
     = map_sum id fst (compute_eer [Genuine, Forged, Genuine] [3/10, 2/10, 1/10])"
proof -
  have h: "strict_mono (\<lambda>x :: real. 2 * x)" by (simp add: strict_mono_def)
  show ?thesis
    using h compute_eer_monotone_invariant [OF h, of "[Genuine, Forged, Genuine]" "[3/10, 2/10, 1/10]"]
    by blast
qed


section \<open>Properties of the evaluation loop\<close>

lemma evaluate_loop_success:
  "map (\<lambda>(n, m). evaluate_model n m X_train y_train X_test y_test) ms = map Inr rs \<Longrightarrow>
   evaluate_loop (ms @ rest) X_train y_train X_test y_test results
     = evaluate_loop rest X_train y_train X_test y_test (results @ rs)"
proof (induction ms arbitrary: rs results)
  case Nil
  then show ?case by simp
next
  case (Cons p ms)
  obtain n m where p: "p = (n, m)" by (cases p)
  from Cons.prems obtain r rs' where rs: "rs = r # rs'"
    and r: "evaluate_model n m X_train y_train X_test y_test = Inr r"
    and rest: "map (\<lambda>(n, m). evaluate_model n m X_train y_train X_test y_test) ms = map Inr rs'"
    by (cases rs) (auto simp: p)
  show ?case
    using Cons.IH [OF rest, of "results @ [r]"] by (simp add: p r rs)
qed

lemma evaluate_loop_completes:
  "evaluate_loop ms X_train y_train X_test y_test results0 = (results, None) \<Longrightarrow>
   \<exists>rs. results = results0 @ rs \<and>
        map (\<lambda>(n, m). evaluate_model n m X_train y_train X_test y_test) ms = map Inr rs"
proof (induction ms arbitrary: results0)
  case Nil
  then show ?case by simp
next
  case (Cons p ms)
  obtain n m where p: "p = (n, m)" by (cases p)
  from Cons.prems obtain r where r: "evaluate_model n m X_train y_train X_test y_test = Inr r"
    and loop: "evaluate_loop ms X_train y_train X_test y_test (results0 @ [r]) = (results, None)"
    by (auto simp: p split: sum.splits)
  from Cons.IH [OF loop] obtain rs where "results = (results0 @ [r]) @ rs"
    "map (\<lambda>(n, m). evaluate_model n m X_train y_train X_test y_test) ms = map Inr rs"
    by blast
  then show ?case
    by (intro exI [of _ "r # rs"]) (simp add: p r)
qed

lemma evaluate_model_Inr:
  assumes "evaluate_model name model X_train y_train X_test y_test = Inr r"
  shows "\<exists>proba y_prob acc pre rec f1.
     predict_proba model = Some proba \<and>
     positive_class_column (proba (fit model X_train y_train) X_test) = Inr y_prob \<and>
     accuracy_score y_test (predict model (fit model X_train y_train) X_test) = Inr acc \<and>
     precision_score y_test (predict model (fit model X_train y_train) X_test) = Inr pre \<and>
     recall_score y_test (predict model (fit model X_train y_train) X_test) = Inr rec \<and>
     f1_score y_test (predict model (fit model X_train y_train) X_test) = Inr f1 \<and>
     r = [(''Model'', Str name), (''Accuracy'', Num acc), (''Precision'', Num pre),
          (''Recall'', Num rec), (''F1'', Num f1)]"
  using assms
  by (auto simp: evaluate_model_def Let_def split: option.splits sum.splits)

lemma evaluate_model_unsupported:
  "predict_proba model = None \<Longrightarrow>
   evaluate_model name model X_train y_train X_test y_test = Inl UnsupportedClassifier"
  by (simp add: evaluate_model_def Let_def)

text \<open>
  Claim C4, as amended. When the models registered before a classifier without
  \<^verbatim>\<open>predict_proba\<close> are evaluated without error, the run ends at that classifier with
  the failure \<open>UnsupportedClassifier\<close>: \<^verbatim>\<open>results\<close> holds the reports of the earlier
  models, unchanged, no entry is recorded for the unsupported classifier, and the models
  registered after it are not evaluated.
\<close>

theorem evaluate_all_stops_at_unsupported:
  assumes "map (\<lambda>(n, m). evaluate_model n m X_train y_train X_test y_test) before = map Inr reports"
    and "predict_proba model = None"
  shows "evaluate_all (before @ (name, model) # rest) X_train y_train X_test y_test
           = (reports, Some UnsupportedClassifier)"
  unfolding evaluate_all_def
  by (simp add: evaluate_loop_success [OF assms(1)] evaluate_model_unsupported [OF assms(2)])

lemma evaluate_model_Inr_iff:
  "evaluate_model name model X_train y_train X_test y_test = Inr r \<longleftrightarrow>
   (\<exists>proba y_prob acc pre rec f1.
     predict_proba model = Some proba \<and>
     positive_class_column (proba (fit model X_train y_train) X_test) = Inr y_prob \<and>
     accuracy_score y_test (predict model (fit model X_train y_train) X_test) = Inr acc \<and>
     precision_score y_test (predict model (fit model X_train y_train) X_test) = Inr pre \<and>
     recall_score y_test (predict model (fit model X_train y_train) X_test) = Inr rec \<and>
     f1_score y_test (predict model (fit model X_train y_train) X_test) = Inr f1 \<and>
     r = [(''Model'', Str name), (''Accuracy'', Num acc), (''Precision'', Num pre),
          (''Recall'', Num rec), (''F1'', Num f1)])"
proof
  assume "evaluate_model name model X_train y_train X_test y_test = Inr r"
  then show "\<exists>proba y_prob acc pre rec f1.
     predict_proba model = Some proba \<and>
     positive_class_column (proba (fit model X_train y_train) X_test) = Inr y_prob \<and>
     accuracy_score y_test (predict model (fit model X_train y_train) X_test) = Inr acc \<and>
     precision_score y_test (predict model (fit model X_train y_train) X_test) = Inr pre \<and>
     recall_score y_test (predict model (fit model X_train y_train) X_test) = Inr rec \<and>
     f1_score y_test (predict model (fit model X_train y_train) X_test) = Inr f1 \<and>
     r = [(''Model'', Str name), (''Accuracy'', Num acc), (''Precision'', Num pre),
          (''Recall'', Num rec), (''F1'', Num f1)]"
    by (rule evaluate_model_Inr)
next
  assume "\<exists>proba y_prob acc pre rec f1.
     predict_proba model = Some proba \<and>
     positive_class_column (proba (fit model X_train y_train) X_test) = Inr y_prob \<and>
     accuracy_score y_test (predict model (fit model X_train y_train) X_test) = Inr acc \<and>
     precision_score y_test (predict model (fit model X_train y_train) X_test) = Inr pre \<and>
     recall_score y_test (predict model (fit model X_train y_train) X_test) = Inr rec \<and>
     f1_score y_test (predict model (fit model X_train y_train) X_test) = Inr f1 \<and>
     r = [(''Model'', Str name), (''Accuracy'', Num acc), (''Precision'', Num pre),
          (''Recall'', Num rec), (''F1'', Num f1)]"
  then show "evaluate_model name model X_train y_train X_test y_test = Inr r"
    by (auto simp: evaluate_model_def Let_def)
qed

lemma evaluate_loop_prefix:
  "evaluate_loop ms X_train y_train X_test y_test acc = (results, outcome) \<Longrightarrow>
   \<exists>rs. results = acc @ rs \<and> length rs \<le> length ms \<and>
     (\<forall>i < length rs.
        evaluate_model (fst (ms ! i)) (snd (ms ! i)) X_train y_train X_test y_test = Inr (rs ! i)) \<and>
     (case outcome of
        None \<Rightarrow> length rs = length ms
      | Some e \<Rightarrow> length rs < length ms \<and>
          evaluate_model (fst (ms ! length rs)) (snd (ms ! length rs))
            X_train y_train X_test y_test = Inl e)"
proof (induction ms arbitrary: acc)
  case Nil
  then show ?case by auto
next
  case (Cons p ms)
  obtain n m where p: "p = (n, m)" by (cases p)
  show ?case
  proof (cases "evaluate_model n m X_train y_train X_test y_test")
    case (Inl e)
    with Cons.prems have "results = acc" "outcome = Some e" by (simp_all add: p)
    then show ?thesis
      by (intro exI [of _ "[]"]) (simp add: p Inl)
  next
    case (Inr r)
    with Cons.prems
    have "evaluate_loop ms X_train y_train X_test y_test (acc @ [r]) = (results, outcome)"
      by (simp add: p)
    from Cons.IH [OF this] obtain rs where rs: "results = (acc @ [r]) @ rs"
      "length rs \<le> length ms"
      "\<forall>i < length rs.
        evaluate_model (fst (ms ! i)) (snd (ms ! i)) X_train y_train X_test y_test = Inr (rs ! i)"
      "case outcome of
        None \<Rightarrow> length rs = length ms
      | Some e \<Rightarrow> length rs < length ms \<and>
          evaluate_model (fst (ms ! length rs)) (snd (ms ! length rs))
            X_train y_train X_test y_test = Inl e"
      by blast
    have each: "\<forall>i < length (r # rs).
        evaluate_model (fst ((p # ms) ! i)) (snd ((p # ms) ! i)) X_train y_train X_test y_test
          = Inr ((r # rs) ! i)"
    proof (intro allI impI)
      fix i assume "i < length (r # rs)"
      then show "evaluate_model (fst ((p # ms) ! i)) (snd ((p # ms) ! i))
          X_train y_train X_test y_test = Inr ((r # rs) ! i)"
        using rs(3) by (cases i) (simp_all add: p Inr)
    qed
    show ?thesis
      using rs(1,2,4) each
      by (intro exI [of _ "r # rs"]) (auto split: option.splits)
  qed
qed

lemma evaluate_loop_run:
  assumes "length rs \<le> length ms"
    and "\<forall>i < length rs.
        evaluate_model (fst (ms ! i)) (snd (ms ! i)) X_train y_train X_test y_test = Inr (rs ! i)"
    and "case outcome of
        None \<Rightarrow> length rs = length ms
      | Some e \<Rightarrow> length rs < length ms \<and>
          evaluate_model (fst (ms ! length rs)) (snd (ms ! length rs))
            X_train y_train X_test y_test = Inl e"
  shows "evaluate_loop ms X_train y_train X_test y_test acc = (acc @ rs, outcome)"
proof -
  let ?k = "length rs"
  have pre: "map (\<lambda>(n, m). evaluate_model n m X_train y_train X_test y_test) (take ?k ms)
      = map Inr rs"
    using assms(1,2) by (intro nth_equalityI) (simp_all add: case_prod_unfold)
  have loop: "evaluate_loop ms X_train y_train X_test y_test acc
      = evaluate_loop (drop ?k ms) X_train y_train X_test y_test (acc @ rs)"
    using evaluate_loop_success [OF pre, of "drop ?k ms" acc] by simp
  show ?thesis
  proof (cases outcome)
    case None
    with assms(3) have "drop ?k ms = []" by simp
    with loop None show ?thesis by simp
  next
    case (Some e)
    with assms(3) have k: "?k < length ms"
      and e: "evaluate_model (fst (ms ! ?k)) (snd (ms ! ?k)) X_train y_train X_test y_test = Inl e"
      by simp_all
    obtain n m where nm: "ms ! ?k = (n, m)" by (cases "ms ! ?k")
    from k have "drop ?k ms = (n, m) # drop (Suc ?k) ms"
      using Cons_nth_drop_Suc [of ?k ms] by (simp add: nm)
    with loop e Some show ?thesis by (simp add: nm)
  qed
qed

text \<open>
  Claim C5, as amended. Each iteration the loop reaches fits the model on the training
  split, obtains hard predictions and positive-class scores on the test split and
  computes accuracy, precision, recall and f1; it succeeds exactly when these steps do
  (\<open>compute_eer\<close> is not called in the loop, so the loop completes also where
  \<open>compute_eer\<close> would fail), and then appends one report holding exactly the model name
  and the four metrics. A run returns the reports of the models before the first failing
  iteration, in registration order, with that iteration's error, or one report per model
  and no error when every iteration succeeds; with distinct registry names no two
  reports have the same model name.
\<close>

theorem evaluate_all_reports:
  "(evaluate_model name model X_train y_train X_test y_test = Inr r \<longleftrightarrow>
     (\<exists>proba y_prob acc pre rec f1.
        predict_proba model = Some proba \<and>
        positive_class_column (proba (fit model X_train y_train) X_test) = Inr y_prob \<and>
        accuracy_score y_test (predict model (fit model X_train y_train) X_test) = Inr acc \<and>
        precision_score y_test (predict model (fit model X_train y_train) X_test) = Inr pre \<and>
        recall_score y_test (predict model (fit model X_train y_train) X_test) = Inr rec \<and>
        f1_score y_test (predict model (fit model X_train y_train) X_test) = Inr f1 \<and>
        r = [(''Model'', Str name), (''Accuracy'', Num acc), (''Precision'', Num pre),
             (''Recall'', Num rec), (''F1'', Num f1)])) \<and>
   (evaluate_all models X_train y_train X_test y_test = (results, outcome) \<longleftrightarrow>
      length results \<le> length models \<and>
      (\<forall>i < length results.
         evaluate_model (fst (models ! i)) (snd (models ! i)) X_train y_train X_test y_test
           = Inr (results ! i)) \<and>
      (case outcome of
         None \<Rightarrow> length results = length models
       | Some e \<Rightarrow> length results < length models \<and>
           evaluate_model (fst (models ! length results)) (snd (models ! length results))
             X_train y_train X_test y_test = Inl e)) \<and>
   (evaluate_all models X_train y_train X_test y_test = (results, outcome) \<longrightarrow>
      map (\<lambda>r. map_of r ''Model'') results
        = map (\<lambda>(n, m). Some (Str n)) (take (length results) models) \<and>
      (distinct (map fst models) \<longrightarrow> distinct (map (\<lambda>r. map_of r ''Model'') results)))"
proof (intro conjI impI)
  show "evaluate_model name model X_train y_train X_test y_test = Inr r \<longleftrightarrow>
     (\<exists>proba y_prob acc pre rec f1.
        predict_proba model = Some proba \<and>
        positive_class_column (proba (fit model X_train y_train) X_test) = Inr y_prob \<and>
        accuracy_score y_test (predict model (fit model X_train y_train) X_test) = Inr acc \<and>
        precision_score y_test (predict model (fit model X_train y_train) X_test) = Inr pre \<and>
        recall_score y_test (predict model (fit model X_train y_train) X_test) = Inr rec \<and>
        f1_score y_test (predict model (fit model X_train y_train) X_test) = Inr f1 \<and>
        r = [(''Model'', Str name), (''Accuracy'', Num acc), (''Precision'', Num pre),
             (''Recall'', Num rec), (''F1'', Num f1)])"
    by (rule evaluate_model_Inr_iff)
next
  show "evaluate_all models X_train y_train X_test y_test = (results, outcome) \<longleftrightarrow>
      length results \<le> length models \<and>
      (\<forall>i < length results.
         evaluate_model (fst (models ! i)) (snd (models ! i)) X_train y_train X_test y_test
           = Inr (results ! i)) \<and>
      (case outcome of
         None \<Rightarrow> length results = length models
       | Some e \<Rightarrow> length results < length models \<and>
           evaluate_model (fst (models ! length results)) (snd (models ! length results))
             X_train y_train X_test y_test = Inl e)"
    unfolding evaluate_all_def
    using evaluate_loop_prefix [of models X_train y_train X_test y_test "[]" results outcome]
      evaluate_loop_run [of results models X_train y_train X_test y_test outcome "[]"]
    by auto
next
  assume run: "evaluate_all models X_train y_train X_test y_test = (results, outcome)"
  then have len: "length results \<le> length models"
    and each: "\<forall>i < length results.
         evaluate_model (fst (models ! i)) (snd (models ! i)) X_train y_train X_test y_test
           = Inr (results ! i)"
    unfolding evaluate_all_def
    using evaluate_loop_prefix [of models X_train y_train X_test y_test "[]" results outcome]
    by auto
  show names: "map (\<lambda>r. map_of r ''Model'') results
        = map (\<lambda>(n, m). Some (Str n)) (take (length results) models)"
  proof (rule nth_equalityI)
    show "length (map (\<lambda>r. map_of r ''Model'') results)
        = length (map (\<lambda>(n, m). Some (Str n)) (take (length results) models))"
      using len by simp
  next
    fix i assume "i < length (map (\<lambda>r. map_of r ''Model'') results)"
    then have i: "i < length results" by simp
    with each have "evaluate_model (fst (models ! i)) (snd (models ! i))
        X_train y_train X_test y_test = Inr (results ! i)" by simp
    from evaluate_model_Inr [OF this]
    have "map_of (results ! i) ''Model'' = Some (Str (fst (models ! i)))" by auto
    with i len show "map (\<lambda>r. map_of r ''Model'') results ! i
        = map (\<lambda>(n, m). Some (Str n)) (take (length results) models) ! i"
      by (simp add: case_prod_unfold)
  qed
  assume d: "distinct (map fst models)"
  have eq: "map (\<lambda>(n, m). Some (Str n)) (take (length results) models)
      = map (\<lambda>n. Some (Str n)) (take (length results) (map fst models))"
    by (simp add: case_prod_unfold comp_def take_map)
  have "distinct (take (length results) (map fst models))"
    using d by (rule distinct_take)
  then have "distinct (map (\<lambda>n. Some (Str n)) (take (length results) (map fst models)))"
    by (subst distinct_map) (simp add: inj_on_def)
  then show "distinct (map (\<lambda>r. map_of r ''Model'') results)"
    by (simp only: names eq)
qed

lemma one_class_run:
  "evaluate_all
     [(''RandomForest'', fixed_classifier [Genuine, Genuine] [[1/5, 4/5], [2/5, 3/5]]),
      (''KNN'', fixed_classifier [Genuine, Forged] [[1/5, 4/5], [7/10, 3/10]])]
     () [Genuine, Forged] () [Genuine, Genuine]
   = ([[(''Model'', Str ''RandomForest''), (''Accuracy'', Num 1), (''Precision'', Num 1),
        (''Recall'', Num 1), (''F1'', Num 1)],
       [(''Model'', Str ''KNN''), (''Accuracy'', Num (1/2)), (''Precision'', Num 1),
        (''Recall'', Num (1/2)), (''F1'', Num (2/3))]], None)"
  by (simp add: evaluate_all_def evaluate_model_def fixed_classifier_def
      positive_class_column_def accuracy_score_def precision_score_def recall_score_def
      f1_score_def check_lengths_def count_pairs_def)

theorem evaluate_all_reports_witness:
  "evaluate_all
     [(''RandomForest'', fixed_classifier [Genuine, Genuine] [[1/5, 4/5], [2/5, 3/5]]),
      (''KNN'', fixed_classifier [Genuine, Forged] [[1/5, 4/5], [7/10, 3/10]])]
     () [Genuine, Forged] () [Genuine, Genuine]
   = ([[(''Model'', Str ''RandomForest''), (''Accuracy'', Num 1), (''Precision'', Num 1),
        (''Recall'', Num 1), (''F1'', Num 1)],
       [(''Model'', Str ''KNN''), (''Accuracy'', Num (1/2)), (''Precision'', Num 1),
        (''Recall'', Num (1/2)), (''F1'', Num (2/3))]], None) \<and>
   compute_eer [Genuine, Genuine] [4/5, 3/5] = Inl DegenerateLabelSet \<and>
   distinct (map (\<lambda>r. map_of r ''Model'')
      [[(''Model'', Str ''RandomForest''), (''Accuracy'', Num 1), (''Precision'', Num 1),
        (''Recall'', Num 1), (''F1'', Num 1)],
       [(''Model'', Str ''KNN''), (''Accuracy'', Num (1/2)), (''Precision'', Num 1),
        (''Recall'', Num (1/2)), (''F1'', Num (2/3))]])"
proof -
  have d: "distinct (map fst
     [(''RandomForest'', fixed_classifier [Genuine, Genuine] [[1/5, 4/5], [2/5, 3/5]]),
      (''KNN'', fixed_classifier [Genuine, Forged] [[1/5, 4/5], [7/10, 3/10]])])"
    by simp
  have e: "compute_eer [Genuine, Genuine] [4/5, 3/5] = Inl DegenerateLabelSet"
    by (simp add: compute_eer_def roc_curve_def)
  from evaluate_all_reports [of "''KNN''"
      "fixed_classifier [Genuine, Forged] [[1/5, 4/5], [7/10, 3/10]]" "()" "[Genuine, Forged]" "()"
      "[Genuine, Genuine]" "[]", THEN conjunct2, THEN conjunct2, rule_format, OF one_class_run]
    d e one_class_run
  show ?thesis by blast
qed


text \<open>
  Claim C5 as stated (every report contains the equal error rate and its threshold)
  fails: the reports of a run have the five keys of the loop's dict and no other.
\<close>

theorem reports_without_eer:
  "map (map fst) (fst (evaluate_all
     [(''RandomForest'', fixed_classifier [Genuine, Forged] [[1/5, 4/5], [7/10, 3/10]]),
      (''KNN'', fixed_classifier [Genuine, Genuine] [[1/5, 4/5], [2/5, 3/5]])]
     () [Genuine, Forged] () [Genuine, Forged]))
   = [[''Model'', ''Accuracy'', ''Precision'', ''Recall'', ''F1''],
      [''Model'', ''Accuracy'', ''Precision'', ''Recall'', ''F1'']]"
  by (simp add: evaluate_all_def evaluate_model_def fixed_classifier_def
      positive_class_column_def accuracy_score_def precision_score_def recall_score_def
      f1_score_def check_lengths_def count_pairs_def)

lemma demo_first_model:
  "map (\<lambda>(n, m). evaluate_model n m () [Genuine, Forged] () [Genuine, Forged])
     [(''RandomForest'', fixed_classifier [Genuine, Forged] [[1/5, 4/5], [7/10, 3/10]])]
   = map Inr [[(''Model'', Str ''RandomForest''), (''Accuracy'', Num 1), (''Precision'', Num 1),
        (''Recall'', Num 1), (''F1'', Num 1)]]"
  by (simp add: evaluate_model_def fixed_classifier_def
      positive_class_column_def accuracy_score_def precision_score_def recall_score_def
      f1_score_def check_lengths_def count_pairs_def)

theorem evaluate_all_stops_at_unsupported_witness:
  "evaluate_all
     ([(''RandomForest'', fixed_classifier [Genuine, Forged] [[1/5, 4/5], [7/10, 3/10]])]
      @ (''Perceptron'', hard_only_classifier [Genuine, Forged])
      # [(''KNN'', fixed_classifier [Genuine, Genuine] [[1/5, 4/5], [2/5, 3/5]])])
     () [Genuine, Forged] () [Genuine, Forged]
   = ([[(''Model'', Str ''RandomForest''), (''Accuracy'', Num 1), (''Precision'', Num 1),
        (''Recall'', Num 1), (''F1'', Num 1)]], Some UnsupportedClassifier)"
proof -
  have h: "predict_proba (hard_only_classifier [Genuine, Forged]) = None"
    by (simp add: hard_only_classifier_def)
  show ?thesis
    by (rule evaluate_all_stops_at_unsupported [OF demo_first_model h])
qed

text \<open>
  Claim C4 as stated (the other classifiers are still reported and no error reaches the
  top level) fails: with an unsupported classifier in second place the run ends with the
  error after the first report, although the third model evaluates without error on its
  own.
\<close>

theorem unsupported_aborts_run:
  "evaluate_all
     [(''RandomForest'', fixed_classifier [Genuine, Forged] [[1/5, 4/5], [7/10, 3/10]]),
      (''Perceptron'', hard_only_classifier [Genuine, Forged]),
      (''KNN'', fixed_classifier [Genuine, Genuine] [[1/5, 4/5], [2/5, 3/5]])]
     () [Genuine, Forged] () [Genuine, Forged]
   = ([[(''Model'', Str ''RandomForest''), (''Accuracy'', Num 1), (''Precision'', Num 1),
        (''Recall'', Num 1), (''F1'', Num 1)]], Some UnsupportedClassifier) \<and>
   evaluate_model ''KNN'' (fixed_classifier [Genuine, Genuine] [[1/5, 4/5], [2/5, 3/5]])
     () [Genuine, Forged] () [Genuine, Forged]
   = Inr [(''Model'', Str ''KNN''), (''Accuracy'', Num (1/2)), (''Precision'', Num (1/2)),
        (''Recall'', Num 1), (''F1'', Num (2/3))]"
  by (simp add: evaluate_all_def evaluate_model_def fixed_classifier_def hard_only_classifier_def
      positive_class_column_def accuracy_score_def precision_score_def recall_score_def
      f1_score_def check_lengths_def count_pairs_def)


end
